theory Spec2Isabelle
  imports Complex_Main
begin

section \<open>Royston-Parmar spline models: the model layer of Royston\_Parmar\_2002.py\<close>

text \<open>
  The source computes with numpy arrays of IEEE doubles. Here a double is a \<^typ>\<open>real\<close>:
  rounding, overflow, underflow and the values nan and inf are outside the model, except
  in the last part of the definitions, which gives the results of \<open>np.exp\<close>, of the final
  product and of \<open>np.log1p\<close> in binary64 as well.
  \<open>np.log\<close> is \<^const>\<open>ln\<close>, which agrees with the mathematical logarithm on positive
  arguments only (numpy gives nan or -inf elsewhere, HOL some real number), so every
  statement about a logarithm of a time or of a knot is made for positive arguments.
  Likewise the quotient in \<open>basis\<close> is only meaningful for \<open>min_knot \<noteq> max_knot\<close>.

  A one-dimensional array is a list, the design matrix of one parameter group is a list
  of rows. The parameter groups \<open>phi1_\<close> and \<open>phi2_\<close> are arrays of length one (see
  \<open>_create_initial_point\<close> and the regressors \<open>"1"\<close> of the driver), which numpy
  broadcasts against the array of log-times: they are scalars here.
\<close>

subsection \<open>Errors and numpy primitives\<close>

datatype error = IndexError | ValueError

type_synonym ndarray = "real list"
type_synonym matrix = "real list list"

definition getitem :: "'a list \<Rightarrow> int \<Rightarrow> error + 'a" where
  \<comment> \<open>\<open>xs[i]\<close> on a Python list; \<open>xs[-j]\<close> is the j-th element from the end.\<close>
  "getitem xs i =
     (if 0 \<le> i \<and> nat i < length xs then Inr (xs ! nat i)
      else if i < 0 \<and> nat (- i) \<le> length xs then Inr (xs ! (length xs - nat (- i)))
      else Inl IndexError)"

definition and_then :: "error + 'a \<Rightarrow> ('a \<Rightarrow> error + 'b) \<Rightarrow> error + 'b" where
  \<comment> \<open>Sequencing: an exception raised by the first computation ends the evaluation.\<close>
  "and_then r f = (case r of Inl e \<Rightarrow> Inl e | Inr v \<Rightarrow> f v)"

definition dot_row :: "real list \<Rightarrow> real list \<Rightarrow> real" where
  "dot_row row b = sum_list (map2 (*) row b)"

definition np_dot :: "matrix \<Rightarrow> real list \<Rightarrow> error + ndarray" where
  \<comment> \<open>\<open>np.dot\<close> of an n-by-p matrix and a vector of length p; other shapes do not align.\<close>
  "np_dot X b =
     (if list_all (\<lambda>row. length row = length b) X
      then Inr (map (\<lambda>row. dot_row row b) X)
      else Inl ValueError)"

definition broadcast :: "(real \<Rightarrow> real \<Rightarrow> real) \<Rightarrow> ndarray \<Rightarrow> ndarray \<Rightarrow> error + ndarray" where
  \<comment> \<open>A binary operation on two one-dimensional arrays under numpy's broadcasting rule.\<close>
  "broadcast f xs ys =
     (if length xs = length ys then Inr (map2 f xs ys)
      else if length xs = 1 then Inr (map (f (hd xs)) ys)
      else if length ys = 1 then Inr (map (\<lambda>x. f x (hd ys)) xs)
      else Inl ValueError)"

definition log1p :: "real \<Rightarrow> real" where
  "log1p x = ln (1 + x)"

subsection \<open>SplineFitter\<close>

definition relu :: "real \<Rightarrow> real" where
  "relu x = max 0 x"

definition basis :: "real \<Rightarrow> real \<Rightarrow> real \<Rightarrow> real \<Rightarrow> real" where
  \<comment> \<open>\<open>basis\<close> called with a scalar \<open>x\<close>.\<close>
  "basis x knot min_knot max_knot =
     (let lambda = (max_knot - knot) / (max_knot - min_knot)
      in relu (x - knot) ^ 3
         - (lambda * relu (x - min_knot) ^ 3 + (1 - lambda) * relu (x - max_knot) ^ 3))"

definition relu_array :: "ndarray \<Rightarrow> ndarray" where
  "relu_array xs = map (max 0) xs"

definition basis_array :: "ndarray \<Rightarrow> real \<Rightarrow> real \<Rightarrow> real \<Rightarrow> ndarray" where
  \<comment> \<open>\<open>basis\<close> called with an array \<open>x\<close>, operation by operation: array minus scalar,
      \<open>np.maximum\<close>, power, scalar times array, and sums of arrays of one shape.\<close>
  "basis_array x knot min_knot max_knot =
     (let lambda = (max_knot - knot) / (max_knot - min_knot);
          cube = map (\<lambda>v. v ^ 3)
      in map2 (-)
           (cube (relu_array (map (\<lambda>v. v - knot) x)))
           (map2 (+)
              (map ((*) lambda) (cube (relu_array (map (\<lambda>v. v - min_knot) x))))
              (map ((*) (1 - lambda)) (cube (relu_array (map (\<lambda>v. v - max_knot) x))))))"

subsection \<open>The three model variants\<close>

record params =
  beta :: "real list"
  phi1 :: real

record spline_params = params +
  phi2 :: real

definition KNOTS :: "real list" where
  \<comment> \<open>The class attribute of \<open>PHSplineFitter\<close> and of \<open>POSplineFitter\<close>.\<close>
  "KNOTS = [0.1972, 1.769, 6.728]"

definition spline_term :: "real list \<Rightarrow> spline_params \<Rightarrow> ndarray \<Rightarrow> error + ndarray" where
  \<comment> \<open>The expression shared by both spline variants:
      \<open>params["phi1_"] * lT + params["phi2_"] * self.basis(lT, np.log(self.KNOTS[1]),
      np.log(self.KNOTS[0]), np.log(self.KNOTS[-1]))\<close>.\<close>
  "spline_term knots p lT =
     and_then (getitem knots 1) (\<lambda>k1.
     and_then (getitem knots 0) (\<lambda>k0.
     and_then (getitem knots (- 1)) (\<lambda>k2.
       Inr (map2 (+) (map ((*) (phi1 p)) lT)
                     (map ((*) (phi2 p)) (basis_array lT (ln k1) (ln k0) (ln k2)))))))"

definition PHSplineFitter_cumulative_hazard ::
  "real list \<Rightarrow> spline_params \<Rightarrow> ndarray \<Rightarrow> matrix \<Rightarrow> error + ndarray" where
  \<comment> \<open>\<open>PHSplineFitter._cumulative_hazard\<close>; the first argument is \<open>self.KNOTS\<close>, the last
      \<open>Xs["beta_"]\<close>.\<close>
  "PHSplineFitter_cumulative_hazard knots p T X =
     and_then (np_dot X (beta p)) (\<lambda>Xbeta.
       let exp_Xbeta = map exp Xbeta; lT = map ln T in
       and_then (spline_term knots p lT) (\<lambda>s.
         broadcast (*) exp_Xbeta (map exp s)))"

definition POSplineFitter_cumulative_hazard ::
  "real list \<Rightarrow> spline_params \<Rightarrow> ndarray \<Rightarrow> matrix \<Rightarrow> error + ndarray" where
  \<comment> \<open>\<open>POSplineFitter._cumulative_hazard\<close>.\<close>
  "POSplineFitter_cumulative_hazard knots p T X =
     and_then (np_dot X (beta p)) (\<lambda>Xbeta.
       let lT = map ln T in
       and_then (spline_term knots p lT) (\<lambda>s.
       and_then (broadcast (+) Xbeta s) (\<lambda>z.
         Inr (map log1p (map exp z)))))"

definition AltWeibullFitter_cumulative_hazard ::
  "params \<Rightarrow> ndarray \<Rightarrow> matrix \<Rightarrow> error + ndarray" where
  \<comment> \<open>\<open>AltWeibullFitter._cumulative_hazard\<close>.\<close>
  "AltWeibullFitter_cumulative_hazard p T X =
     and_then (np_dot X (beta p)) (\<lambda>Xbeta.
       let exp_Xbeta = map exp Xbeta; lT = map ln T in
         broadcast (*) exp_Xbeta (map exp (map ((*) (phi1 p)) lT)))"

subsection \<open>Class attributes read by the fitting engine\<close>

text \<open>
  The fitting engine reads \<open>_scipy_fit_method\<close> and \<open>_scipy_fit_options\<close> from the
  fitter. Python finds a class attribute in the first class of the method resolution
  order that declares it. \<open>ParametricRegressionFitter\<close> belongs to the lifelines library,
  not to this file: what it declares or inherits is a parameter of the model.
\<close>

datatype cls = SplineFitter | PHSplineFitter | POSplineFitter | AltWeibullFitter
  | ParametricRegressionFitter

record fit_attrs =
  scipy_fit_method :: "string option"
  scipy_fit_options :: "(string \<times> real) list option"

fun mro :: "cls \<Rightarrow> cls list" where
  "mro SplineFitter = [SplineFitter]"
| "mro PHSplineFitter = [PHSplineFitter, SplineFitter, ParametricRegressionFitter]"
| "mro POSplineFitter = [POSplineFitter, SplineFitter, ParametricRegressionFitter]"
| "mro AltWeibullFitter = [AltWeibullFitter, ParametricRegressionFitter]"
| "mro ParametricRegressionFitter = [ParametricRegressionFitter]"

fun declared :: "fit_attrs \<Rightarrow> cls \<Rightarrow> fit_attrs" where
  \<comment> \<open>What each class body declares; \<open>None\<close> is an attribute the body does not mention.\<close>
  "declared lib SplineFitter =
     \<lparr>scipy_fit_method = Some ''SLSQP'', scipy_fit_options = Some [(''ftol'', 1 / 10 ^ 12)]\<rparr>"
| "declared lib PHSplineFitter = \<lparr>scipy_fit_method = None, scipy_fit_options = None\<rparr>"
| "declared lib POSplineFitter = \<lparr>scipy_fit_method = None, scipy_fit_options = None\<rparr>"
| "declared lib AltWeibullFitter =
     \<lparr>scipy_fit_method = Some ''SLSQP'', scipy_fit_options = None\<rparr>"
| "declared lib ParametricRegressionFitter = lib"

fun first_declared :: "('c \<Rightarrow> 'v option) \<Rightarrow> 'c list \<Rightarrow> 'v option" where
  "first_declared f [] = None"
| "first_declared f (c # cs) = (case f c of Some v \<Rightarrow> Some v | None \<Rightarrow> first_declared f cs)"

definition fit_method :: "fit_attrs \<Rightarrow> cls \<Rightarrow> string option" where
  "fit_method lib c = first_declared (\<lambda>d. scipy_fit_method (declared lib d)) (mro c)"

definition fit_options :: "fit_attrs \<Rightarrow> cls \<Rightarrow> (string \<times> real) list option" where
  "fit_options lib c = first_declared (\<lambda>d. scipy_fit_options (declared lib d)) (mro c)"

subsection \<open>Results in binary64\<close>













section \<open>Auxiliary facts\<close>

lemma basis_array_eq_map:
  "basis_array xs k mn mx = map (\<lambda>x. basis x k mn mx) xs"
  by (induction xs) (simp_all add: basis_array_def basis_def relu_array_def relu_def Let_def)

lemma map2_same: "map2 f (map g xs) (map h xs) = map (\<lambda>x. f (g x) (h x)) xs"
  by (induction xs) simp_all

lemma getitem_knots:
  assumes "2 \<le> length knots"
  shows "getitem knots 1 = Inr (knots ! 1)" "getitem knots 0 = Inr (knots ! 0)"
    "getitem knots (- 1) = Inr (last knots)"
proof -
  have ne: "knots \<noteq> []" using assms by (cases knots) simp_all
  show "getitem knots 1 = Inr (knots ! 1)" "getitem knots 0 = Inr (knots ! 0)"
    using assms ne by (simp_all add: getitem_def)
  show "getitem knots (- 1) = Inr (last knots)"
    using assms ne by (simp add: getitem_def last_conv_nth)
qed

lemma spline_term_closed:
  assumes "2 \<le> length knots"
  shows "spline_term knots p lT =
    Inr (map (\<lambda>x. phi1 p * x + phi2 p * basis x (ln (knots ! 1)) (ln (knots ! 0)) (ln (last knots))) lT)"
  unfolding spline_term_def getitem_knots[OF assms] and_then_def basis_array_eq_map
  by (simp add: map2_same[of "(+)" "\<lambda>x. phi1 p * x" lT, unfolded map_map o_def, symmetric] o_def)

lemma spline_term_short:
  assumes "length knots < 2"
  shows "spline_term knots p lT = Inl IndexError"
  using assms by (simp add: spline_term_def getitem_def and_then_def)

lemma KNOTS_simps:
  "length KNOTS = 3" "KNOTS ! 0 = 0.1972" "KNOTS ! 1 = 1.769" "KNOTS ! Suc 0 = 1.769"
  "last KNOTS = 6.728"
  by (simp_all add: KNOTS_def)

lemma PH_closed:
  assumes "2 \<le> length knots" "list_all (\<lambda>row. length row = length (beta p)) X"
  shows "PHSplineFitter_cumulative_hazard knots p T X =
    broadcast (*) (map (\<lambda>row. exp (dot_row row (beta p))) X)
      (map (\<lambda>t. exp (phi1 p * ln t + phi2 p * basis (ln t) (ln (knots ! 1)) (ln (knots ! 0)) (ln (last knots)))) T)"
  using assms(2)
  by (simp add: PHSplineFitter_cumulative_hazard_def np_dot_def and_then_def Let_def
      spline_term_closed[OF assms(1)] o_def)

lemma PO_closed:
  assumes "2 \<le> length knots" "list_all (\<lambda>row. length row = length (beta p)) X"
  shows "POSplineFitter_cumulative_hazard knots p T X =
    and_then (broadcast (+) (map (\<lambda>row. dot_row row (beta p)) X)
      (map (\<lambda>t. phi1 p * ln t + phi2 p * basis (ln t) (ln (knots ! 1)) (ln (knots ! 0)) (ln (last knots))) T))
     (\<lambda>z. Inr (map (\<lambda>v. ln (1 + exp v)) z))"
  using assms(2)
  by (simp add: POSplineFitter_cumulative_hazard_def np_dot_def and_then_def Let_def
      spline_term_closed[OF assms(1)] o_def log1p_def)

lemma AW_closed:
  assumes "list_all (\<lambda>row. length row = length (beta p)) X"
  shows "AltWeibullFitter_cumulative_hazard p T X =
    broadcast (*) (map (\<lambda>row. exp (dot_row row (beta p))) X) (map (\<lambda>t. exp (phi1 p * ln t)) T)"
  using assms
  by (simp add: AltWeibullFitter_cumulative_hazard_def np_dot_def and_then_def Let_def o_def)

lemma broadcast_same_length:
  "length xs = length ys \<Longrightarrow> broadcast f xs ys = Inr (map2 f xs ys)"
  by (simp add: broadcast_def)


lemma basis_unfolded:
  "basis x k mn mx = (max 0 (x - k)) ^ 3 - ((mx - k) / (mx - mn) * (max 0 (x - mn)) ^ 3 + (1 - (mx - k) / (mx - mn)) * (max 0 (x - mx)) ^ 3)"
  by (simp add: basis_def relu_def Let_def)

lemma basis_below_min:
  assumes "mn < k" "k < mx" "x \<le> mn"
  shows "basis x k mn mx = 0"
  using assms by (simp add: basis_def relu_def Let_def max_def)

lemma restricted_cubic_identity:
  fixes l d u :: real
  shows "(u + l * d) ^ 3 - (l * (u + d) ^ 3 + (1 - l) * u ^ 3)
         = (l * d) * (d - l * d) * (- (l * d) - d - 3 * u)"
  by (simp add: algebra_simps power3_eq_cube)

lemma basis_above_max:
  assumes "mn < k" "k < mx" "mx \<le> x"
  shows "basis x k mn mx = (mx - k) * (k - mn) * (k + mx + mn - 3 * x)"
proof -
  define d where "d = mx - mn"
  define l where "l = (mx - k) / (mx - mn)"
  define u where "u = x - mx"
  have ne: "d \<noteq> 0" using assms by (simp add: d_def)
  have ld: "l * d = mx - k" using ne by (simp add: l_def d_def)
  have "relu (x - k) = x - k" "relu (x - mn) = x - mn" "relu (x - mx) = x - mx"
    using assms by (simp_all add: relu_def max_def)
  then have r: "relu (x - k) = u + l * d" "relu (x - mn) = u + d" "relu (x - mx) = u"
    unfolding ld by (simp_all add: u_def d_def)
  have "basis x k mn mx = (u + l * d) ^ 3 - (l * (u + d) ^ 3 + (1 - l) * u ^ 3)"
    unfolding basis_def Let_def r l_def by simp
  also have "\<dots> = (l * d) * (d - l * d) * (- (l * d) - d - 3 * u)"
    by (rule restricted_cubic_identity)
  also have "\<dots> = (mx - k) * (k - mn) * (k + mx + mn - 3 * x)"
    unfolding ld by (simp add: d_def u_def algebra_simps)
  finally show ?thesis .
qed

lemma interior_knot_value:
  assumes "mn < k" "k < mx"
  shows "basis k k mn mx = - ((mx - k) / (mx - mn)) * (k - mn) ^ 3"
  using assms by (simp add: basis_def relu_def Let_def max_def)

lemma interior_knot_negative: "basis (ln 1.769) (ln 1.769) (ln 0.1972) (ln 6.728) < 0"
proof -
  have a: "ln (0.1972::real) < ln 1.769" by simp
  have b: "ln (1.769::real) < ln 6.728" by simp
  have "0 < (ln (6.728::real) - ln 1.769) / (ln 6.728 - ln 0.1972)" using a b by simp
  moreover have "0 < (ln (1.769::real) - ln 0.1972) ^ 3" using a by simp
  ultimately have "0 < (ln (6.728::real) - ln 1.769) / (ln 6.728 - ln 0.1972) * (ln (1.769::real) - ln 0.1972) ^ 3"
    by (rule mult_pos_pos)
  then show ?thesis unfolding interior_knot_value[OF a b] by simp
qed

lemma relu_cube_deriv:
  "((\<lambda>x. relu (x - c) ^ 3) has_real_derivative 3 * relu (x - c) ^ 2) (at x)"
proof -
  consider "x < c" | "x = c" | "c < x" by linarith
  then show ?thesis
  proof cases
    case 1
    have "eventually (\<lambda>y. y \<in> {..<c}) (nhds x)"
      using 1 by (intro eventually_nhds_in_open) simp_all
    then have ev: "eventually (\<lambda>y. relu (y - c) ^ 3 = 0) (nhds x)"
      by (rule eventually_mono) (simp add: relu_def max_def)
    have "((\<lambda>y::real. 0::real) has_real_derivative 0) (at x)" by simp
    then have "((\<lambda>y. relu (y - c) ^ 3) has_real_derivative 0) (at x)"
      using DERIV_cong_ev[OF refl ev refl] by simp
    then show ?thesis using 1 by (simp add: relu_def max_def)
  next
    case 3
    have "eventually (\<lambda>y. y \<in> {c<..}) (nhds x)"
      using 3 by (intro eventually_nhds_in_open) simp_all
    then have ev: "eventually (\<lambda>y. relu (y - c) ^ 3 = (y - c) ^ 3) (nhds x)"
      by (rule eventually_mono) (simp add: relu_def max_def)
    have "((\<lambda>y. (y - c) ^ 3) has_real_derivative 3 * (x - c) ^ 2) (at x)"
      by (auto intro!: derivative_eq_intros)
    then have "((\<lambda>y. relu (y - c) ^ 3) has_real_derivative 3 * (x - c) ^ 2) (at x)"
      using DERIV_cong_ev[OF refl ev refl] by simp
    then show ?thesis using 3 by (simp add: relu_def max_def)
  next
    case 2
    have sq: "((\<lambda>y. (y - c) ^ 2) \<longlongrightarrow> 0) (at c)"
      by (auto intro!: tendsto_eq_intros)
    have bound: "norm (relu (y - c) ^ 3 / (y - c)) \<le> norm ((y - c) ^ 2) * 1" for y
    proof (cases "y \<le> c")
      case True
      then show ?thesis by (simp add: relu_def max_def)
    next
      case False
      then have "relu (y - c) ^ 3 / (y - c) = (y - c) ^ 2"
        by (simp add: relu_def max_def power3_eq_cube power2_eq_square)
      then show ?thesis by simp
    qed
    have "eventually (\<lambda>y. norm (relu (y - c) ^ 3 / (y - c)) \<le> norm ((y - c) ^ 2) * 1) (at c)"
      using bound by (rule always_eventually[OF allI])
    with sq have "((\<lambda>y. relu (y - c) ^ 3 / (y - c)) \<longlongrightarrow> 0) (at c)"
      by (rule tendsto_0_le)
    then show ?thesis
      using 2 by (simp add: has_field_derivative_iff relu_def)
  qed
qed

lemma basis_has_derivative:
  "((\<lambda>x. basis x k mn mx) has_real_derivative
      (3 * relu (x - k) ^ 2
       - ((mx - k) / (mx - mn) * (3 * relu (x - mn) ^ 2)
          + (1 - (mx - k) / (mx - mn)) * (3 * relu (x - mx) ^ 2)))) (at x)"
  unfolding basis_def Let_def
  by (intro DERIV_diff DERIV_add DERIV_cmult relu_cube_deriv)

lemma basis_derivative_cont:
  "isCont (\<lambda>x. 3 * relu (x - k) ^ 2
       - ((mx - k) / (mx - mn) * (3 * relu (x - mn) ^ 2)
          + (1 - (mx - k) / (mx - mn)) * (3 * relu (x - mx) ^ 2))) x"
  unfolding relu_def by (intro continuous_intros)

lemma basis_cont: "isCont (\<lambda>x. basis x k mn mx) x"
  using basis_has_derivative by (rule DERIV_isCont)

lemma KNOTS_ordered: "ln (0.1972::real) < ln 1.769" "ln (1.769::real) < ln 6.728"
  by simp_all

lemma spline_term_KNOTS:
  "spline_term KNOTS p lT =
     Inr (map (\<lambda>x. phi1 p * x + phi2 p * basis x (ln 1.769) (ln 0.1972) (ln 6.728)) lT)"
  using spline_term_closed[of KNOTS p lT] by (simp add: KNOTS_simps)

lemma PH_KNOTS_closed:
  assumes "list_all (\<lambda>row. length row = length (beta p)) X"
  shows "PHSplineFitter_cumulative_hazard KNOTS p T X =
    broadcast (*) (map (\<lambda>row. exp (dot_row row (beta p))) X)
      (map (\<lambda>t. exp (phi1 p * ln t + phi2 p * basis (ln t) (ln 1.769) (ln 0.1972) (ln 6.728))) T)"
  using PH_closed[of KNOTS p X T] assms by (simp add: KNOTS_simps)

lemma PO_KNOTS_closed:
  assumes "list_all (\<lambda>row. length row = length (beta p)) X"
  shows "POSplineFitter_cumulative_hazard KNOTS p T X =
    and_then (broadcast (+) (map (\<lambda>row. dot_row row (beta p)) X)
      (map (\<lambda>t. phi1 p * ln t + phi2 p * basis (ln t) (ln 1.769) (ln 0.1972) (ln 6.728)) T))
     (\<lambda>z. Inr (map (\<lambda>v. ln (1 + exp v)) z))"
  using PO_closed[of KNOTS p X T] assms by (simp add: KNOTS_simps)





















subsection \<open>Positivity of the cumulative hazard\<close>




subsection \<open>The PH-spline and PO-spline formulas\<close>

text \<open>
  Claim C2. For parameters \<open>(beta_, phi1_, phi2_)\<close>, a design matrix \<open>X\<close> with one row per
  event time and all \<open>T > 0\<close>, the PH-spline cumulative hazard of each subject is
  \<open>exp(X\<cdot>beta_) \<cdot> exp(phi1_\<cdot>log T + phi2_\<cdot>basis(log T, log 1.769, log 0.1972, log 6.728))\<close>:
  the interior knot is 1.769, the boundary knots are 0.1972 and 6.728, all on the log scale.
\<close>

theorem PH_cumulative_hazard_formula:
  assumes T: "list_all (\<lambda>t. 0 < t) T"
    and X: "list_all (\<lambda>row. length row = length (beta p)) X"
    and n: "length X = length T"
  shows "PHSplineFitter_cumulative_hazard KNOTS p T X =
     Inr (map2 (\<lambda>row t. exp (dot_row row (beta p))
                 * exp (phi1 p * ln t + phi2 p * basis (ln t) (ln 1.769) (ln 0.1972) (ln 6.728))) X T)"
proof -
  have "map2 (*) (map (\<lambda>row. exp (dot_row row (beta p))) X)
      (map (\<lambda>t. exp (phi1 p * ln t + phi2 p * basis (ln t) (ln 1.769) (ln 0.1972) (ln 6.728))) T)
    = map2 (\<lambda>row t. exp (dot_row row (beta p))
                 * exp (phi1 p * ln t + phi2 p * basis (ln t) (ln 1.769) (ln 0.1972) (ln 6.728))) X T"
    by (simp add: zip_map_map case_prod_beta)
  then show ?thesis
    unfolding PH_KNOTS_closed[OF X] using n by (simp add: broadcast_same_length)
qed

theorem PH_cumulative_hazard_formula_witness:
  "list_all (\<lambda>t. 0 < t) [1 :: real]
   \<and> list_all (\<lambda>row. length row = length (beta \<lparr>beta = [2], phi1 = 2, phi2 = 0\<rparr>)) [[3 :: real]]
   \<and> length [[3 :: real]] = length [1 :: real]
   \<and> PHSplineFitter_cumulative_hazard KNOTS \<lparr>beta = [2], phi1 = 2, phi2 = 0\<rparr> [1] [[3]] = Inr [exp 6]"
  using PH_cumulative_hazard_formula [of "[1]" "\<lparr>beta = [2], phi1 = 2, phi2 = 0\<rparr>" "[[3]]"]
  by (simp add: dot_row_def)

text \<open>
  Claim C3. Under the same conditions the PO-spline cumulative hazard of each subject is
  \<open>log(1 + exp(X\<cdot>beta_ + phi1_\<cdot>log T + phi2_\<cdot>basis_term))\<close>, with the basis term and the
  knots of the PH-spline variant: the link is \<open>log1p\<close> after \<open>exp\<close>.
\<close>

theorem PO_cumulative_hazard_formula:
  assumes T: "list_all (\<lambda>t. 0 < t) T"
    and X: "list_all (\<lambda>row. length row = length (beta p)) X"
    and n: "length X = length T"
  shows "POSplineFitter_cumulative_hazard KNOTS p T X =
     Inr (map2 (\<lambda>row t. ln (1 + exp (dot_row row (beta p)
                 + (phi1 p * ln t + phi2 p * basis (ln t) (ln 1.769) (ln 0.1972) (ln 6.728))))) X T)"
  unfolding PO_KNOTS_closed[OF X] using n
  by (simp add: broadcast_same_length and_then_def zip_map_map case_prod_beta)

theorem PO_cumulative_hazard_formula_witness:
  "list_all (\<lambda>t. 0 < t) [1 :: real]
   \<and> list_all (\<lambda>row. length row = length (beta \<lparr>beta = [2], phi1 = 2, phi2 = 0\<rparr>)) [[3 :: real]]
   \<and> length [[3 :: real]] = length [1 :: real]
   \<and> POSplineFitter_cumulative_hazard KNOTS \<lparr>beta = [2], phi1 = 2, phi2 = 0\<rparr> [1] [[3]]
       = Inr [ln (1 + exp 6)]"
  using PO_cumulative_hazard_formula [of "[1]" "\<lparr>beta = [2], phi1 = 2, phi2 = 0\<rparr>" "[[3]]"]
  by (simp add: dot_row_def)

subsection \<open>The spline basis\<close>

text \<open>
  Claim C4. For every real \<open>x\<close> and every knot triple with \<open>min_knot < max_knot\<close>,
  \<open>basis(x, knot, min_knot, max_knot)\<close> has the value
  \<open>relu(x - knot)\<^sup>3 - [\<lambda>\<cdot>relu(x - min_knot)\<^sup>3 + (1 - \<lambda>)\<cdot>relu(x - max_knot)\<^sup>3]\<close> with
  \<open>\<lambda> = (max_knot - knot) / (max_knot - min_knot)\<close> and \<open>relu(z) = max(0, z)\<close>, and on an array
  the result is the array of the values of its elements.
\<close>

theorem basis_formula_elementwise:
  assumes "mn < mx"
  shows "basis x k mn mx
           = (max 0 (x - k)) ^ 3
             - ((mx - k) / (mx - mn) * (max 0 (x - mn)) ^ 3
                + (1 - (mx - k) / (mx - mn)) * (max 0 (x - mx)) ^ 3)
         \<and> basis_array xs k mn mx = map (\<lambda>x. basis x k mn mx) xs
         \<and> length (basis_array xs k mn mx) = length xs"
  by (intro conjI basis_unfolded basis_array_eq_map) (simp add: basis_array_eq_map)

theorem basis_formula_elementwise_witness:
  "(0 :: real) < 2
   \<and> basis 3 1 0 2 = (- 6 :: real)
   \<and> basis_array [3, 0] 1 0 2 = [basis 3 1 0 2, basis 0 1 0 2]
   \<and> length (basis_array [3, 0] 1 0 2) = length [3, 0 :: real]"
  using basis_formula_elementwise [of 0 2 3 1 "[3, 0]"]
  by (simp add: power3_eq_cube)

text \<open>
  Claim C5. For every knot triple with \<open>min_knot < knot < max_knot\<close> the basis is an affine
  function of \<open>x\<close> on \<open>x \<le> min_knot\<close> and an affine function of \<open>x\<close> on \<open>x \<ge> max_knot\<close>;
  it is continuous and has a first derivative everywhere, and that derivative is
  continuous, in particular at the two boundary knots.
\<close>

theorem basis_linear_beyond_boundary:
  assumes "mn < k" and "k < mx"
  shows "(\<exists>a b. \<forall>x\<le>mn. basis x k mn mx = a * x + b)
       \<and> (\<exists>a b. \<forall>x\<ge>mx. basis x k mn mx = a * x + b)
       \<and> isCont (\<lambda>x. basis x k mn mx) mn \<and> isCont (\<lambda>x. basis x k mn mx) mx
       \<and> (\<exists>d. (\<forall>x. ((\<lambda>x. basis x k mn mx) has_real_derivative d x) (at x))
              \<and> isCont d mn \<and> isCont d mx)"
proof -
  have low: "\<forall>x\<le>mn. basis x k mn mx = 0 * x + 0"
    using assms by (simp add: basis_below_min)
  have high: "\<forall>x\<ge>mx. basis x k mn mx
      = (- 3 * ((mx - k) * (k - mn))) * x + (mx - k) * (k - mn) * (k + mx + mn)"
    using assms by (simp add: basis_above_max algebra_simps)
  let ?d = "\<lambda>x. 3 * relu (x - k) ^ 2
       - ((mx - k) / (mx - mn) * (3 * relu (x - mn) ^ 2)
          + (1 - (mx - k) / (mx - mn)) * (3 * relu (x - mx) ^ 2))"
  have der: "\<forall>x. ((\<lambda>x. basis x k mn mx) has_real_derivative ?d x) (at x)"
    by (intro allI basis_has_derivative)
  have "isCont ?d mn" "isCont ?d mx"
    by (rule basis_derivative_cont)+
  with der have "(\<forall>x. ((\<lambda>x. basis x k mn mx) has_real_derivative ?d x) (at x))
              \<and> isCont ?d mn \<and> isCont ?d mx"
    by simp
  then have "\<exists>d. (\<forall>x. ((\<lambda>x. basis x k mn mx) has_real_derivative d x) (at x))
              \<and> isCont d mn \<and> isCont d mx"
    by (rule exI[of _ ?d])
  with low high show ?thesis
    using basis_cont by blast
qed

theorem basis_linear_beyond_boundary_witness:
  "(0 :: real) < 1 \<and> (1 :: real) < 2
   \<and> (\<exists>a b. \<forall>x\<le>0. basis x 1 0 2 = a * x + b)
   \<and> (\<exists>a b. \<forall>x\<ge>2. basis x 1 0 2 = a * x + b)
   \<and> isCont (\<lambda>x. basis x 1 0 2) 0 \<and> isCont (\<lambda>x. basis x 1 0 2) 2
   \<and> (\<exists>d. (\<forall>x. ((\<lambda>x. basis x 1 0 2) has_real_derivative d x) (at x))
          \<and> isCont d 0 \<and> isCont d 2)"
  using basis_linear_beyond_boundary [of 0 1 2]
  by simp

text \<open>
  Claim C10. For every knot triple with \<open>min_knot < knot < max_knot\<close> and every
  \<open>x \<le> min_knot\<close> the basis is exactly 0. So for event times at or below the smallest
  knot 0.1972 the spline term drops out of the cumulative hazard: the PH-spline value is
  the Alt-Weibull value whatever \<open>phi2_\<close> is, and the PO-spline value does not depend on
  \<open>phi2_\<close>.
\<close>

theorem basis_zero_below_min_knot:
  "(mn < k \<and> k < mx \<and> x \<le> mn \<longrightarrow> basis x k mn mx = 0)
   \<and> (list_all (\<lambda>t. 0 < t \<and> t \<le> 0.1972) T \<longrightarrow>
        PHSplineFitter_cumulative_hazard KNOTS \<lparr>beta = b, phi1 = p1, phi2 = p2\<rparr> T X
          = AltWeibullFitter_cumulative_hazard \<lparr>beta = b, phi1 = p1\<rparr> T X
        \<and> POSplineFitter_cumulative_hazard KNOTS \<lparr>beta = b, phi1 = p1, phi2 = p2\<rparr> T X
          = POSplineFitter_cumulative_hazard KNOTS \<lparr>beta = b, phi1 = p1, phi2 = 0\<rparr> T X)"
proof (intro conjI impI)
  assume "mn < k \<and> k < mx \<and> x \<le> mn"
  then show "basis x k mn mx = 0" by (simp add: basis_below_min)
next
  assume T: "list_all (\<lambda>t. 0 < t \<and> t \<le> 0.1972) T"
  have zero: "basis (ln t) (ln 1.769) (ln 0.1972) (ln 6.728) = 0" if "t \<in> set T" for t
  proof -
    have "0 < t" "t \<le> 0.1972" using T that by (simp_all add: list_all_iff)
    then have "ln t \<le> ln 0.1972" by simp
    with KNOTS_ordered show ?thesis by (rule basis_below_min)
  qed
  have s: "spline_term KNOTS \<lparr>beta = b, phi1 = p1, phi2 = q\<rparr> (map ln T)
      = Inr (map (\<lambda>x. p1 * x) (map ln T))" for q
    unfolding spline_term_KNOTS using zero by simp
  show "PHSplineFitter_cumulative_hazard KNOTS \<lparr>beta = b, phi1 = p1, phi2 = p2\<rparr> T X
          = AltWeibullFitter_cumulative_hazard \<lparr>beta = b, phi1 = p1\<rparr> T X"
    by (simp add: PHSplineFitter_cumulative_hazard_def AltWeibullFitter_cumulative_hazard_def
        s and_then_def Let_def o_def)
  show "POSplineFitter_cumulative_hazard KNOTS \<lparr>beta = b, phi1 = p1, phi2 = p2\<rparr> T X
          = POSplineFitter_cumulative_hazard KNOTS \<lparr>beta = b, phi1 = p1, phi2 = 0\<rparr> T X"
    by (simp add: POSplineFitter_cumulative_hazard_def s and_then_def Let_def)
qed

theorem basis_zero_below_min_knot_witness:
  "((0 :: real) < 1 \<and> (1 :: real) < 2 \<and> (- 1 :: real) \<le> 0)
   \<and> basis (- 1) 1 0 2 = 0
   \<and> list_all (\<lambda>t. 0 < t \<and> t \<le> 0.1972) [0.1 :: real]
   \<and> PHSplineFitter_cumulative_hazard KNOTS \<lparr>beta = [2], phi1 = 1, phi2 = 7\<rparr> [0.1] [[3]]
        = AltWeibullFitter_cumulative_hazard \<lparr>beta = [2], phi1 = 1\<rparr> [0.1] [[3]]
   \<and> POSplineFitter_cumulative_hazard KNOTS \<lparr>beta = [2], phi1 = 1, phi2 = 7\<rparr> [0.1] [[3]]
        = POSplineFitter_cumulative_hazard KNOTS \<lparr>beta = [2], phi1 = 1, phi2 = 0\<rparr> [0.1] [[3]]"
  using basis_zero_below_min_knot [of 0 1 2 "- 1" "[0.1]" "[2]" 1 7 "[[3]]"]
  by simp

subsection \<open>The spline models against the Alt-Weibull baseline\<close>

text \<open>
  Claim C6. For every \<open>beta_\<close>, \<open>phi1_\<close>, every design matrix and all \<open>T > 0\<close>, the PH-spline
  cumulative hazard with \<open>phi2_ = 0\<close> is the Alt-Weibull cumulative hazard with the same
  \<open>beta_\<close> and \<open>phi1_\<close> (the same array, or the same error on ill-shaped data), and for
  each subject the PH-spline value tends to the Alt-Weibull value as \<open>phi2_\<close> tends to 0.
\<close>

theorem PH_phi2_zero_is_AltWeibull:
  assumes T: "list_all (\<lambda>t. 0 < t) T"
  shows "PHSplineFitter_cumulative_hazard KNOTS \<lparr>beta = b, phi1 = p1, phi2 = 0\<rparr> T X
           = AltWeibullFitter_cumulative_hazard \<lparr>beta = b, phi1 = p1\<rparr> T X
       \<and> (list_all (\<lambda>row. length row = length b) X \<and> length X = length T \<longrightarrow>
            (\<forall>i<length T.
               ((\<lambda>q. projr (PHSplineFitter_cumulative_hazard KNOTS
                              \<lparr>beta = b, phi1 = p1, phi2 = q\<rparr> T X) ! i)
                 \<longlongrightarrow> projr (AltWeibullFitter_cumulative_hazard \<lparr>beta = b, phi1 = p1\<rparr> T X) ! i)
               (at 0)))"
proof (intro conjI impI allI)
  have "spline_term KNOTS \<lparr>beta = b, phi1 = p1, phi2 = 0\<rparr> (map ln T)
      = Inr (map (\<lambda>x. p1 * x) (map ln T))"
    unfolding spline_term_KNOTS by simp
  then show "PHSplineFitter_cumulative_hazard KNOTS \<lparr>beta = b, phi1 = p1, phi2 = 0\<rparr> T X
           = AltWeibullFitter_cumulative_hazard \<lparr>beta = b, phi1 = p1\<rparr> T X"
    by (simp add: PHSplineFitter_cumulative_hazard_def AltWeibullFitter_cumulative_hazard_def
        and_then_def Let_def o_def)
next
  fix i
  assume shape: "list_all (\<lambda>row. length row = length b) X \<and> length X = length T"
    and i: "i < length T"
  let ?B = "basis (ln (T ! i)) (ln 1.769) (ln 0.1972) (ln 6.728)"
  have ph: "projr (PHSplineFitter_cumulative_hazard KNOTS \<lparr>beta = b, phi1 = p1, phi2 = q\<rparr> T X) ! i
      = exp (dot_row (X ! i) b) * exp (p1 * ln (T ! i) + q * ?B)" for q
    using shape i
    by (simp add: PH_KNOTS_closed broadcast_same_length)
  have aw: "projr (AltWeibullFitter_cumulative_hazard \<lparr>beta = b, phi1 = p1\<rparr> T X) ! i
      = exp (dot_row (X ! i) b) * exp (p1 * ln (T ! i))"
    using shape i
    by (simp add: AW_closed broadcast_same_length)
  have "((\<lambda>q. exp (dot_row (X ! i) b) * exp (p1 * ln (T ! i) + q * ?B))
      \<longlongrightarrow> exp (dot_row (X ! i) b) * exp (p1 * ln (T ! i) + 0 * ?B)) (at 0)"
    by (intro tendsto_intros)
  then show "((\<lambda>q. projr (PHSplineFitter_cumulative_hazard KNOTS
                              \<lparr>beta = b, phi1 = p1, phi2 = q\<rparr> T X) ! i)
                 \<longlongrightarrow> projr (AltWeibullFitter_cumulative_hazard \<lparr>beta = b, phi1 = p1\<rparr> T X) ! i)
               (at 0)"
    unfolding ph aw by simp
qed

theorem PH_phi2_zero_is_AltWeibull_witness:
  "list_all (\<lambda>t. 0 < t) [2 :: real]
   \<and> PHSplineFitter_cumulative_hazard KNOTS \<lparr>beta = [2], phi1 = 1, phi2 = 0\<rparr> [2] [[3]]
           = AltWeibullFitter_cumulative_hazard \<lparr>beta = [2], phi1 = 1\<rparr> [2] [[3]]
   \<and> (list_all (\<lambda>row. length row = length [2 :: real]) [[3 :: real]]
        \<and> length [[3 :: real]] = length [2 :: real])
   \<and> (0 :: nat) < length [2 :: real]
   \<and> ((\<lambda>q. projr (PHSplineFitter_cumulative_hazard KNOTS
                              \<lparr>beta = [2], phi1 = 1, phi2 = q\<rparr> [2] [[3]]) ! 0)
          \<longlongrightarrow> projr (AltWeibullFitter_cumulative_hazard \<lparr>beta = [2], phi1 = 1\<rparr> [2] [[3]]) ! 0)
         (at 0)"
  using PH_phi2_zero_is_AltWeibull [of "[2]" "[2]" 1 "[[3]]"]
  by simp

subsection \<open>The basis at the interior knot\<close>

text \<open>
  Claim C7 says that the basis vanishes at the interior knot of the published knots. It
  does not: \<open>relu(x - min_knot)\<close> is positive there.
\<close>

theorem basis_at_interior_knot_nonzero:
  "basis (ln 1.769) (ln 1.769) (ln 0.1972) (ln 6.728) \<noteq> 0"
  using interior_knot_negative by simp

text \<open>
  Claim C7, amended. With knots 0.1972, 1.769, 6.728 the basis at the interior knot on
  the log scale is \<open>- \<lambda>\<cdot>(log 1.769 - log 0.1972)\<^sup>3\<close> with
  \<open>\<lambda> = (log 6.728 - log 1.769) / (log 6.728 - log 0.1972)\<close>, a strictly negative number.
\<close>

theorem basis_at_interior_knot_value:
  "basis (ln 1.769) (ln 1.769) (ln 0.1972) (ln 6.728)
     = - ((ln 6.728 - ln 1.769) / (ln 6.728 - ln 0.1972)) * (ln 1.769 - ln 0.1972) ^ 3
   \<and> basis (ln 1.769) (ln 1.769) (ln 0.1972) (ln 6.728) < 0"
  using interior_knot_value [OF KNOTS_ordered] interior_knot_negative by simp

subsection \<open>Knot configurations\<close>

text \<open>
  Claim C8 says that an invalid knot configuration is rejected before any evaluation.
  The classes have no such check: with the knots 3, 2, 1 (in decreasing order) the
  cumulative hazard is evaluated and returned.
\<close>

theorem invalid_knots_evaluate:
  "PHSplineFitter_cumulative_hazard [3, 2, 1] \<lparr>beta = [0], phi1 = 2, phi2 = 5\<rparr> [1] [[0]] = Inr [1]"
  by (simp add: PHSplineFitter_cumulative_hazard_def np_dot_def and_then_def dot_row_def
      spline_term_def getitem_def basis_array_def relu_array_def broadcast_def Let_def)

text \<open>
  Claim C8, amended. The knots are not validated. The knots the classes declare are
  positive and strictly increasing, and with any list of at least two knots, whatever
  their order, both spline variants evaluate well-shaped data to an array with one value
  per event time: no error is raised for the knots.
\<close>

theorem no_knot_validation:
  assumes "2 \<le> length knots"
    and "list_all (\<lambda>row. length row = length (beta p)) X"
    and "length X = length T"
  shows "(length KNOTS = 3 \<and> 0 < KNOTS ! 0 \<and> KNOTS ! 0 < KNOTS ! 1 \<and> KNOTS ! 1 < KNOTS ! 2)
       \<and> (\<exists>ph po. PHSplineFitter_cumulative_hazard knots p T X = Inr ph
             \<and> POSplineFitter_cumulative_hazard knots p T X = Inr po
             \<and> length ph = length T \<and> length po = length T)"
proof -
  have "length KNOTS = 3 \<and> 0 < KNOTS ! 0 \<and> KNOTS ! 0 < KNOTS ! 1 \<and> KNOTS ! 1 < KNOTS ! 2"
    by (simp add: KNOTS_def)
  moreover have "\<exists>ph. PHSplineFitter_cumulative_hazard knots p T X = Inr ph \<and> length ph = length T"
    unfolding PH_closed[OF assms(1,2)] using assms(3) by (simp add: broadcast_same_length)
  moreover have "\<exists>po. POSplineFitter_cumulative_hazard knots p T X = Inr po \<and> length po = length T"
    unfolding PO_closed[OF assms(1,2)] using assms(3)
    by (simp add: broadcast_same_length and_then_def)
  ultimately show ?thesis by blast
qed

theorem no_knot_validation_witness:
  "2 \<le> length [3, 2, 1 :: real]
   \<and> list_all (\<lambda>row. length row = length (beta \<lparr>beta = [0], phi1 = 2, phi2 = 5\<rparr>)) [[0 :: real]]
   \<and> length [[0 :: real]] = length [1 :: real]
   \<and> (\<exists>ph po. PHSplineFitter_cumulative_hazard [3, 2, 1] \<lparr>beta = [0], phi1 = 2, phi2 = 5\<rparr> [1] [[0]] = Inr ph
             \<and> POSplineFitter_cumulative_hazard [3, 2, 1] \<lparr>beta = [0], phi1 = 2, phi2 = 5\<rparr> [1] [[0]] = Inr po
             \<and> length ph = length [1 :: real] \<and> length po = length [1 :: real])"
  using no_knot_validation [of "[3, 2, 1]" "\<lparr>beta = [0], phi1 = 2, phi2 = 5\<rparr>" "[[0]]" "[1]"]
  by simp

subsection \<open>Solver configuration\<close>

text \<open>
  Claim C9 says that all three variants set the solver tolerance to 1e-12.
  \<open>AltWeibullFitter\<close> declares the method only; its options are those of the library
  class, here with the library's empty options.
\<close>

theorem AltWeibull_fit_options_not_ftol:
  "fit_options \<lparr>scipy_fit_method = Some ''BFGS'', scipy_fit_options = Some []\<rparr> AltWeibullFitter
     \<noteq> Some [(''ftol'', 1 / 10 ^ 12)]"
  by (simp add: fit_options_def)

text \<open>
  Claim C9, amended. Whatever the library class declares, the PH-spline and the PO-spline
  variants use the method SLSQP with the option \<open>ftol = 1e-12\<close>; the Alt-Weibull variant
  uses the method SLSQP and takes its options from the library class.
\<close>

theorem fit_configuration:
  "fit_method lib PHSplineFitter = Some ''SLSQP''
   \<and> fit_options lib PHSplineFitter = Some [(''ftol'', 1 / 10 ^ 12)]
   \<and> fit_method lib POSplineFitter = Some ''SLSQP''
   \<and> fit_options lib POSplineFitter = Some [(''ftol'', 1 / 10 ^ 12)]
   \<and> fit_method lib AltWeibullFitter = Some ''SLSQP''
   \<and> fit_options lib AltWeibullFitter = scipy_fit_options lib"
  by (cases "scipy_fit_options lib") (simp_all add: fit_method_def fit_options_def)

end
